theory Spec2Isabelle
  imports Complex_Main
begin

section \<open>Python values and errors\<close>

text \<open>
  The exceptions the modelled code can raise. A function of the source that can raise
  returns \<open>py_error + 'a\<close>, with \<open>Inl\<close> for the exception.
  Python floats are modelled as exact reals, Python ints as \<open>int\<close>.
\<close>

datatype py_error =
    ValueError
  | TypeError
  | IndexError
  | UnboundLocalError
  | ZeroDivisionError
  | SolverError

section \<open>numpy.linspace\<close>

text \<open>
  \<open>np.linspace(start, stop, num)\<close> with the default \<open>endpoint=True\<close>, as numpy computes
  it: a negative \<open>num\<close> raises ValueError; otherwise \<open>divisor = num - 1\<close>, the samples are
  \<open>arange(0, num) * step + start\<close> with \<open>step = (stop - start) / divisor\<close> when \<open>divisor > 0\<close>
  (and \<open>arange(0, num) * (stop - start) + start\<close> otherwise), and for \<open>num > 1\<close> the last sample is
  overwritten with \<open>stop\<close>. (For a zero step numpy divides before it multiplies, which is
  the same number over the reals.)
\<close>

definition arange :: "int \<Rightarrow> real list" where
  "arange num = map real [0 ..< nat num]"

definition linspace :: "real \<Rightarrow> real \<Rightarrow> int \<Rightarrow> py_error + real list" where
  "linspace start stop num =
     (if num < 0 then Inl ValueError
      else
        let divisor = num - 1;
            delta = stop - start;
            y = arange num;
            y = (if divisor > 0 then map (\<lambda>v. v * (delta / real_of_int divisor)) y
                 else map (\<lambda>v. v * delta) y);
            y = map (\<lambda>v. v + start) y;
            y = (if num > 1 then y[nat num - 1 := stop] else y)
        in Inr y)"

section \<open>time.py: TimeInterval\<close>

text \<open>
  The three attributes \<open>_tslots\<close>, \<open>_evo_time\<close>, \<open>_n_tslots\<close> of the object; \<open>None\<close> is
  Python's None. An explicit sequence of instants is a Python list of floats; the array
  \<open>linspace\<close> returns is modelled as a list too (the code never tests its truth value:
  see \<open>n_tslots\<close>, which reads \<open>_tslots\<close> only while \<open>_n_tslots\<close> is None).
\<close>

record TimeInterval =
  tslots_attr :: "real list option"
  evo_time_attr :: "real option"
  n_tslots_attr :: "int option"

text \<open>\<open>__init__(self, tslots=None, evo_time=None, n_tslots=100)\<close>: it stores its arguments
  and never raises.\<close>

definition TimeInterval_init ::
  "real list option \<Rightarrow> real option \<Rightarrow> int option \<Rightarrow> TimeInterval" where
  "TimeInterval_init tslots_arg evo_time_arg n_tslots_arg =
     \<lparr>tslots_attr = tslots_arg, evo_time_attr = evo_time_arg, n_tslots_attr = n_tslots_arg\<rparr>"

text \<open>The default of the keyword \<open>n_tslots\<close>.\<close>

definition n_tslots_default :: "int option" where
  "n_tslots_default = Some 100"

text \<open>Truth values, as Python's \<open>if x:\<close> takes them: None is false, a list is true when
  it is not empty, a float is true when it is not zero.\<close>

definition truthy_list :: "real list option \<Rightarrow> bool" where
  "truthy_list v = (case v of None \<Rightarrow> False | Some xs \<Rightarrow> xs \<noteq> [])"

definition truthy_float :: "real option \<Rightarrow> bool" where
  "truthy_float v = (case v of None \<Rightarrow> False | Some x \<Rightarrow> x \<noteq> 0)"

text \<open>
  The properties read and cache: each returns its value together with the object after
  the call, or the exception.
\<close>

definition n_tslots :: "TimeInterval \<Rightarrow> py_error + (int \<times> TimeInterval)" where
  "n_tslots self =
     (case n_tslots_attr self of
        None \<Rightarrow>
          (if truthy_list (tslots_attr self)
           then (let n = int (length (the (tslots_attr self)))
                 in Inr (n, self\<lparr>n_tslots_attr := Some n\<rparr>))
           else Inl ValueError)
      | Some n \<Rightarrow> Inr (n, self))"

definition tslots :: "TimeInterval \<Rightarrow> py_error + (real list option \<times> TimeInterval)" where
  "tslots self =
     (case tslots_attr self of
        None \<Rightarrow>
          (case n_tslots self of
             Inl e \<Rightarrow> Inl e
           | Inr (n, self1) \<Rightarrow>
               (if truthy_float (evo_time_attr self1)
                then (case linspace 0 (the (evo_time_attr self1)) n of
                        Inl e \<Rightarrow> Inl e
                      | Inr ts \<Rightarrow> Inr (Some ts, self1\<lparr>tslots_attr := Some ts\<rparr>))
                else Inr (tslots_attr self1, self1)))
      | Some ts \<Rightarrow> Inr (Some ts, self))"

text \<open>\<open>tslots[-1]\<close>: None is not subscriptable (TypeError), an empty list has no last
  element (IndexError).\<close>

definition last_item :: "real list option \<Rightarrow> py_error + real" where
  "last_item v =
     (case v of
        None \<Rightarrow> Inl TypeError
      | Some xs \<Rightarrow> (if xs = [] then Inl IndexError else Inr (last xs)))"

definition evo_time :: "TimeInterval \<Rightarrow> py_error + (real \<times> TimeInterval)" where
  "evo_time self =
     (case evo_time_attr self of
        None \<Rightarrow>
          (case tslots self of
             Inl e \<Rightarrow> Inl e
           | Inr (ts, self1) \<Rightarrow>
               (case last_item ts of
                  Inl e \<Rightarrow> Inl e
                | Inr t \<Rightarrow> Inr (t, self1\<lparr>evo_time_attr := Some t\<rparr>)))
      | Some t \<Rightarrow> Inr (t, self))"

text \<open>
  The spec's words for the grid of (evo_time = T, n_tslots = N): N instants, the first 0,
  the last T, and every two neighbours the same distance T / (N - 1) apart.
\<close>

definition evenly_spaced :: "real \<Rightarrow> int \<Rightarrow> real list \<Rightarrow> bool" where
  "evenly_spaced T N xs =
     (int (length xs) = N \<and> xs \<noteq> [] \<and> hd xs = 0 \<and> last xs = T \<and>
      list_all (\<lambda>i. xs ! (i + 1) - xs ! i = T / real_of_int (N - 1)) [0 ..< length xs - 1])"

section \<open>jopt.py: the custom magnitude\<close>

text \<open>
  A jax float is a real or a value that is not finite (NaN, inf). Division by zero gives
  such a value; \<open>jnp.where\<close> evaluates both alternatives and selects one.
\<close>

datatype jfloat = Finite real | NotFinite

definition jnp_divide :: "real \<Rightarrow> real \<Rightarrow> jfloat" where
  "jnp_divide a b = (if b = 0 then NotFinite else Finite (a / b))"

definition jnp_where :: "bool \<Rightarrow> jfloat \<Rightarrow> jfloat \<Rightarrow> jfloat" where
  "jnp_where c a b = (if c then a else b)"

text \<open>\<open>abs\<close> of the source (\<open>jnp.abs\<close> on a complex number is its modulus), and the
  rule \<open>abs_jvp\<close> registered for it: primal \<open>x\<close>, tangent \<open>t\<close>.\<close>

definition abs_custom :: "complex \<Rightarrow> real" where
  "abs_custom x = cmod x"

definition abs_jvp :: "complex \<Rightarrow> complex \<Rightarrow> real \<times> jfloat" where
  "abs_jvp x t =
     (let abs_x = abs_custom x;
          res = jnp_where (abs_x = 0)
                  (Finite 0)
                  (jnp_divide (Re (cnj x * t)) abs_x)
      in (abs_x, res))"

section \<open>Quantum objects\<close>

text \<open>
  A \<open>Qobj\<close> of qutip: its matrix (a ket is a matrix of one column), row by row, and whether
  it is a superoperator. The operations the source uses, as qutip defines them on the data:
  difference, conjugate transpose, product, trace, and \<open>A.overlap(B) = trace(A\<^sup>\<dagger> B)\<close>,
  which for two kets is their inner product.
\<close>

type_synonym cmat = "complex list list"

record Qobj =
  data :: cmat
  issuper :: bool

definition mat_sub :: "cmat \<Rightarrow> cmat \<Rightarrow> cmat" where
  "mat_sub A B = map2 (map2 (-)) A B"

definition mat_add :: "cmat \<Rightarrow> cmat \<Rightarrow> cmat" where
  "mat_add A B = map2 (map2 (+)) A B"

definition mat_scale :: "complex \<Rightarrow> cmat \<Rightarrow> cmat" where
  "mat_scale c A = map (map (\<lambda>v. c * v)) A"

definition adjoint :: "cmat \<Rightarrow> cmat" where
  "adjoint A = map (map cnj) (transpose A)"

definition mat_mul :: "cmat \<Rightarrow> cmat \<Rightarrow> cmat" where
  "mat_mul A B = map (\<lambda>r. map (\<lambda>c. sum_list (map2 (*) r c)) (transpose B)) A"

definition trace :: "cmat \<Rightarrow> complex" where
  "trace A = sum_list (map (\<lambda>i. A ! i ! i) [0 ..< length A])"

definition qobj_sub :: "Qobj \<Rightarrow> Qobj \<Rightarrow> Qobj" where
  "qobj_sub X Y = X\<lparr>data := mat_sub (data X) (data Y)\<rparr>"

definition qobj_mul :: "Qobj \<Rightarrow> Qobj \<Rightarrow> Qobj" where
  "qobj_mul X Y = X\<lparr>data := mat_mul (data X) (data Y)\<rparr>"

definition overlap :: "Qobj \<Rightarrow> Qobj \<Rightarrow> complex" where
  "overlap A B = trace (mat_mul (adjoint (data A)) (data B))"

section \<open>jopt.py: the generator\<close>

text \<open>
  A coefficient function takes the time and a parameter vector. A \<open>QobjEvo\<close> is a list of
  elements, constant or an operator with its coefficient function, and the default
  \<open>args["p"]\<close>; adding two concatenates the elements, the right argument's \<open>args\<close> winning.
\<close>

type_synonym coeff = "real \<Rightarrow> real list \<Rightarrow> complex"

datatype element = ConstElement Qobj | EvoElement Qobj coeff

record QobjEvo =
  elements :: "element list"
  args_p :: "real list option"

definition QobjEvo_const :: "Qobj \<Rightarrow> QobjEvo" where
  "QobjEvo_const q = \<lparr>elements = [ConstElement q], args_p = None\<rparr>"

definition QobjEvo_pair :: "Qobj \<Rightarrow> coeff \<Rightarrow> real list \<Rightarrow> QobjEvo" where
  "QobjEvo_pair q f p = \<lparr>elements = [EvoElement q f], args_p = Some p\<rparr>"

definition qevo_add :: "QobjEvo \<Rightarrow> QobjEvo \<Rightarrow> QobjEvo" where
  "qevo_add A B =
     \<lparr>elements = elements A @ elements B,
      args_p = (case args_p B of None \<Rightarrow> args_p A | Some p \<Rightarrow> Some p)\<rparr>"

text \<open>The value of one element at time \<open>t\<close> under \<open>args = {"p": p}\<close>.\<close>

fun element_at :: "element \<Rightarrow> real \<Rightarrow> real list \<Rightarrow> cmat" where
  "element_at (ConstElement q) t p = data q"
| "element_at (EvoElement q f) t p = mat_scale (f t p) (data q)"

text \<open>The entry of a control-parameter specification: the dict with the keys
  \<open>"guess"\<close> and \<open>"bounds"\<close>; \<open>None\<close> is what \<open>.get\<close> returns for a missing key.\<close>

record p_opt =
  guess :: "real list option"
  bounds :: "(real \<times> real) list option"

text \<open>\<open>p[lower:upper]\<close> for indices that are not negative: Python clips the slice to
  the length of \<open>p\<close>.\<close>

definition py_slice :: "'a list \<Rightarrow> nat \<Rightarrow> nat \<Rightarrow> 'a list" where
  "py_slice p lower upper = drop lower (take upper p)"

definition helper :: "coeff \<Rightarrow> nat \<Rightarrow> nat \<Rightarrow> coeff" where
  "helper control lower upper = (\<lambda>t p. control t (py_slice p lower upper))"

text \<open>
  The loop of \<open>_prepare_generator\<close> over \<open>zip(self.Hc_lst, self.control_parameters.values())\<close>,
  with the generator \<open>H\<close> and the offset \<open>idx\<close> as they stand. \<open>zip\<close> stops with the shorter
  list. \<open>len(guess)\<close> on a missing guess (None) raises TypeError.
\<close>

fun prepare_loop ::
  "real list \<Rightarrow> (Qobj \<times> coeff) list \<Rightarrow> p_opt list \<Rightarrow> QobjEvo \<Rightarrow> nat \<Rightarrow> py_error + QobjEvo" where
  "prepare_loop guess_params ((hc, ctrl) # Hcs) (p # ps) H idx =
     (case guess p of
        None \<Rightarrow> Inl TypeError
      | Some g \<Rightarrow>
          (let M = length g;
               evo = QobjEvo_pair hc (helper ctrl idx (idx + M)) guess_params
           in prepare_loop guess_params Hcs ps (qevo_add H evo) (idx + M)))"
| "prepare_loop guess_params Hcs ps H idx = Inr H"

definition prepare_generator ::
  "Qobj \<Rightarrow> (Qobj \<times> coeff) list \<Rightarrow> (string \<times> p_opt) list \<Rightarrow> real list \<Rightarrow> py_error + QobjEvo" where
  "prepare_generator drift controls control_params guess_params_arg =
     prepare_loop guess_params_arg controls (map snd control_params) (QobjEvo_const drift) 0"

section \<open>jopt.py: JOPT\<close>

text \<open>
  The objective: \<open>objective.H\<close> is the list whose first entry \<open>H[0]\<close> is the drift and
  whose rest \<open>H[1:]\<close> are the control terms, each an operator with its coefficient
  function; \<open>initial\<close> and \<open>target\<close>.
\<close>

record objective =
  obj_initial :: Qobj
  obj_Hd :: Qobj
  obj_Hc_lst :: "(Qobj \<times> coeff) list"
  obj_target :: Qobj

text \<open>The integrator options: what the caller passes (every key optional), and the
  dict after \<open>__init__\<close> has set the method and the defaults.\<close>

datatype stepsize_controller = PIDController real real | GivenController string

datatype ode_solver = Dopri5 | GivenSolver string

record integrator_kwargs =
  kw_rtol :: "real option"
  kw_atol :: "real option"
  kw_stepsize_controller :: "stepsize_controller option"
  kw_solver :: "ode_solver option"

record integrator_options =
  opt_method :: string
  opt_stepsize_controller :: stepsize_controller
  opt_solver :: ode_solver

datatype solver = MESolver QobjEvo integrator_options | SESolver QobjEvo integrator_options

text \<open>The attributes of a JOPT object. \<open>H_gen\<close> is \<open>self.H\<close> and \<open>evo_time_val\<close> is
  \<open>self.evo_time\<close>.\<close>

record JOPT =
  Hd :: Qobj
  Hc_lst :: "(Qobj \<times> coeff) list"
  control_parameters :: "(string \<times> p_opt) list"
  guess_params :: "real list"
  H_gen :: QobjEvo
  initial :: Qobj
  target :: Qobj
  evo_time_val :: real
  var_t :: bool
  norm_fac :: real
  rtol :: real
  atol :: real
  fid_type :: string
  jopt_solver :: solver

text \<open>\<open>d.get(key, default)\<close> on a dict.\<close>

definition dict_get :: "('k \<rightharpoonup> 'v) \<Rightarrow> 'k \<Rightarrow> 'v \<Rightarrow> 'v" where
  "dict_get d k dflt = (case d k of None \<Rightarrow> dflt | Some v \<Rightarrow> v)"

text \<open>
  \<open>JOPT.__init__\<close>, in the order of the source. \<open>qnorm\<close> is \<open>Qobj.norm\<close> of qutip, a
  parameter; \<open>time_options\<close> is the list of the keys of that dict; \<open>1 / qnorm\<close> raises
  ZeroDivisionError for a zero norm. The conversions \<open>.to("jax")\<close> keep the value.
\<close>

definition JOPT_init ::
  "(Qobj \<Rightarrow> real) \<Rightarrow> objective \<Rightarrow> TimeInterval \<Rightarrow> string list \<Rightarrow> (string \<times> p_opt) list \<Rightarrow>
   (string \<rightharpoonup> string) \<Rightarrow> real list \<Rightarrow> integrator_kwargs \<Rightarrow> py_error + JOPT" where
  "JOPT_init qnorm obj time_interval time_options control_params alg_kwargs guess_params_arg kwargs =
     (case prepare_generator (obj_Hd obj) (obj_Hc_lst obj) control_params guess_params_arg of
        Inl e \<Rightarrow> Inl e
      | Inr H \<Rightarrow>
     (case evo_time time_interval of
        Inl e \<Rightarrow> Inl e
      | Inr (T, ti) \<Rightarrow>
     (if qnorm (obj_target obj) = 0 then Inl ZeroDivisionError
      else
        let r = (case kw_rtol kwargs of None \<Rightarrow> 1 / 100000 | Some v \<Rightarrow> v);
            a = (case kw_atol kwargs of None \<Rightarrow> 1 / 100000 | Some v \<Rightarrow> v);
            opts = \<lparr>opt_method = ''diffrax'',
                    opt_stepsize_controller =
                      (case kw_stepsize_controller kwargs of
                         None \<Rightarrow> PIDController r a | Some c \<Rightarrow> c),
                    opt_solver = (case kw_solver kwargs of None \<Rightarrow> Dopri5 | Some v \<Rightarrow> v)\<rparr>
        in Inr \<lparr>Hd = obj_Hd obj,
                Hc_lst = obj_Hc_lst obj,
                control_parameters = control_params,
                guess_params = guess_params_arg,
                H_gen = H,
                initial = obj_initial obj,
                target = obj_target obj,
                evo_time_val = T,
                var_t = (''guess'' \<in> set time_options),
                norm_fac = 1 / qnorm (obj_target obj),
                rtol = r,
                atol = a,
                fid_type =
                  (if issuper (obj_Hd obj) then dict_get alg_kwargs ''fid_type'' ''TRACEDIFF''
                   else dict_get alg_kwargs ''fid_type'' ''PSU''),
                jopt_solver =
                  (if issuper (obj_Hd obj) then MESolver H opts else SESolver H opts)\<rparr>)))"

text \<open>
  \<open>JOPT._infid\<close>. The evolution engine \<open>solver.run(initial, [0.0, evo_time], args={"p": params})\<close>
  is a parameter \<open>run\<close>, which gives the final state or fails. The end time is
  \<open>params[-1]\<close> when the time is a parameter (IndexError on an empty vector). When
  \<open>fid_type\<close> is none of the three names, no branch assigns \<open>infid\<close> and \<open>return infid\<close> raises
  UnboundLocalError.
\<close>

type_synonym run_fn = "solver \<Rightarrow> Qobj \<Rightarrow> real \<Rightarrow> real list \<Rightarrow> py_error + Qobj"

definition end_time :: "JOPT \<Rightarrow> real list \<Rightarrow> py_error + real" where
  "end_time self params =
     (if \<not> var_t self then Inr (evo_time_val self)
      else if params = [] then Inl IndexError
      else Inr (last params))"

definition final_state :: "run_fn \<Rightarrow> JOPT \<Rightarrow> real list \<Rightarrow> py_error + Qobj" where
  "final_state run self params =
     (case end_time self params of
        Inl e \<Rightarrow> Inl e
      | Inr T \<Rightarrow> run (jopt_solver self) (initial self) T params)"

definition infid :: "run_fn \<Rightarrow> JOPT \<Rightarrow> real list \<Rightarrow> py_error + real" where
  "infid run self params =
     (case final_state run self params of
        Inl e \<Rightarrow> Inl e
      | Inr X \<Rightarrow>
          (if fid_type self = ''TRACEDIFF'' then
             (let diff = qobj_sub X (target self);
                  diff_dag = diff\<lparr>data := adjoint (data diff)\<rparr>;
                  g = 1 / 2 * trace (data (qobj_mul diff_dag diff))
              in Inr (Re (complex_of_real (norm_fac self) * g)))
           else
             (let g = complex_of_real (norm_fac self) * overlap (target self) X
              in if fid_type self = ''PSU'' then Inr (1 - abs_custom g)
                 else if fid_type self = ''SU'' then Inr (1 - Re g)
                 else Inl UnboundLocalError)))"

text \<open>
  The spec's words for the infidelity, by fidelity kind: TRACEDIFF is
  \<open>Re(normalization * 1/2 * trace(D\<^sup>\<dagger> D))\<close> with \<open>D = X - target\<close>; PSU is \<open>1 - |g|\<close> and SU is
  \<open>1 - Re(g)\<close> with \<open>g = normalization * \<langle>target, X\<rangle>\<close>.
\<close>

datatype fidelity_kind = TRACEDIFF | PSU | SU

definition fidelity_kind_name :: "fidelity_kind \<Rightarrow> string" where
  "fidelity_kind_name k =
     (case k of TRACEDIFF \<Rightarrow> ''TRACEDIFF'' | PSU \<Rightarrow> ''PSU'' | SU \<Rightarrow> ''SU'')"

definition infid_spec :: "fidelity_kind \<Rightarrow> real \<Rightarrow> cmat \<Rightarrow> cmat \<Rightarrow> real" where
  "infid_spec k normalization tgt X =
     (case k of
        TRACEDIFF \<Rightarrow>
          Re (complex_of_real normalization * (1 / 2) *
              trace (mat_mul (adjoint (mat_sub X tgt)) (mat_sub X tgt)))
      | PSU \<Rightarrow>
          1 - abs_custom (complex_of_real normalization * trace (mat_mul (adjoint tgt) X))
      | SU \<Rightarrow>
          1 - Re (complex_of_real normalization * trace (mat_mul (adjoint tgt) X)))"

section \<open>Parameter layout, in the spec's words\<close>

text \<open>
  \<open>M\<^sub>k\<close> is the length of the guess of the \<open>k\<close>-th entry of the control-parameter
  specification, and the offset of control \<open>k\<close> is the sum of the guess lengths of the
  entries before it. \<open>wrapped_terms\<close> pairs control terms and entries in order, as far as
  both lists go, each coefficient function restricted to its own slice.
  \<open>agree_outside lo hi p q\<close>: the vectors \<open>p\<close> and \<open>q\<close> have the same length and differ at
  most at the positions from \<open>lo\<close> up to, not including, \<open>hi\<close>.
\<close>

definition guess_len :: "p_opt \<Rightarrow> nat" where
  "guess_len p = (case guess p of None \<Rightarrow> 0 | Some g \<Rightarrow> length g)"

definition offset :: "p_opt list \<Rightarrow> nat \<Rightarrow> nat" where
  "offset ps k = sum_list (map guess_len (take k ps))"

definition has_guess :: "p_opt \<Rightarrow> bool" where
  "has_guess p = (guess p \<noteq> None)"

fun wrapped_terms :: "nat \<Rightarrow> (Qobj \<times> coeff) list \<Rightarrow> p_opt list \<Rightarrow> element list" where
  "wrapped_terms idx ((hc, ctrl) # cs) (p # ps) =
     EvoElement hc (helper ctrl idx (idx + guess_len p)) # wrapped_terms (idx + guess_len p) cs ps"
| "wrapped_terms idx cs ps = []"

definition agree_outside :: "nat \<Rightarrow> nat \<Rightarrow> real list \<Rightarrow> real list \<Rightarrow> bool" where
  "agree_outside lo hi p q =
     (length p = length q \<and> list_all (\<lambda>i. lo \<le> i \<and> i < hi \<or> p ! i = q ! i) [0 ..< length p])"

section \<open>A two-level system\<close>

text \<open>
  The objects of the repository's state-to-state test: drift \<open>sigmaz\<close>, controls \<open>sigmax\<close> and
  \<open>sigmay\<close>, initial state \<open>basis(2, 0)\<close>, target \<open>basis(2, 1)\<close>, two controls of three
  parameters each, evolution time 10. The coefficient function here is a simple one,
  linear in the time; the evolution engine \<open>fixed_run X\<close> returns the state \<open>X\<close>.
\<close>

definition sigmax :: Qobj where
  "sigmax = \<lparr>data = [[0, 1], [1, 0]], issuper = False\<rparr>"

definition sigmay :: Qobj where
  "sigmay = \<lparr>data = [[0, - \<i>], [\<i>, 0]], issuper = False\<rparr>"

definition sigmaz :: Qobj where
  "sigmaz = \<lparr>data = [[1, 0], [0, - 1]], issuper = False\<rparr>"

definition basis0 :: Qobj where
  "basis0 = \<lparr>data = [[1], [0]], issuper = False\<rparr>"

definition basis1 :: Qobj where
  "basis1 = \<lparr>data = [[0], [1]], issuper = False\<rparr>"

definition lin_coeff :: coeff where
  "lin_coeff t p = complex_of_real (sum_list p * t)"

definition pq_options :: "(string \<times> p_opt) list" where
  "pq_options =
     [(''p'', \<lparr>guess = Some [1, 1, 0], bounds = Some [(- 1, 1), (- 1, 1), (- 3, 3)]\<rparr>),
      (''q'', \<lparr>guess = Some [1, 1, 0], bounds = Some [(- 1, 1), (- 1, 1), (- 3, 3)]\<rparr>)]"

definition one_option :: "(string \<times> p_opt) list" where
  "one_option = [(''p'', \<lparr>guess = Some [1, 1, 0], bounds = Some [(- 1, 1)]\<rparr>)]"

definition state2state :: objective where
  "state2state =
     \<lparr>obj_initial = basis0, obj_Hd = sigmaz,
      obj_Hc_lst = [(sigmax, lin_coeff), (sigmay, lin_coeff)], obj_target = basis1\<rparr>"

definition no_kwargs :: integrator_kwargs where
  "no_kwargs = \<lparr>kw_rtol = None, kw_atol = None, kw_stepsize_controller = None, kw_solver = None\<rparr>"

definition unit_norm :: "Qobj \<Rightarrow> real" where
  "unit_norm q = 1"

definition fixed_run :: "Qobj \<Rightarrow> run_fn" where
  "fixed_run X = (\<lambda>s psi0 T params. Inr X)"

definition sample_jopt :: "string \<Rightarrow> JOPT" where
  "sample_jopt s =
     \<lparr>Hd = sigmaz, Hc_lst = [], control_parameters = [], guess_params = [],
      H_gen = QobjEvo_const sigmaz, initial = basis0, target = basis1, evo_time_val = 10,
      var_t = False, norm_fac = 1, rtol = 1 / 100000, atol = 1 / 100000, fid_type = s,
      jopt_solver = SESolver (QobjEvo_const sigmaz)
        \<lparr>opt_method = ''diffrax'',
         opt_stepsize_controller = PIDController (1 / 100000) (1 / 100000),
         opt_solver = Dopri5\<rparr>\<rparr>"

section \<open>The time grid\<close>

lemma linspace_grid:
  assumes "2 \<le> N"
  shows "linspace 0 T N =
           Inr ((map (\<lambda>v. v * (T / real_of_int (N - 1))) (arange N))[nat N - 1 := T])"
  using assms by (simp add: linspace_def Let_def comp_def)

lemma grid_nth:
  assumes "i < n"
  shows "((map (\<lambda>v. v * s) (map real [0 ..< n]))[n - 1 := T]) ! i =
           (if i = n - 1 then T else real i * s)"
  using assms by (simp add: nth_list_update)

lemma evenly_spaced_grid:
  assumes "2 \<le> N"
  shows "evenly_spaced T N ((map (\<lambda>v. v * (T / real_of_int (N - 1))) (arange N))[nat N - 1 := T])"
proof -
  define n where "n = nat N"
  define s where "s = T / real_of_int (N - 1)"
  define ys where "ys = (map (\<lambda>v. v * s) (map real [0 ..< n]))[n - 1 := T]"
  have n2: "2 \<le> n" and Nn: "N = int n" using assms by (auto simp: n_def)
  have s: "s = T / (real n - 1)" using n2 by (simp add: s_def Nn of_nat_diff)
  have len: "length ys = n" by (simp add: ys_def)
  have ne: "ys \<noteq> []" using len n2 by auto
  have nth: "ys ! i = (if i = n - 1 then T else real i * s)" if "i < n" for i
    unfolding ys_def using that by (rule grid_nth)
  have h: "hd ys = 0"
    using nth [of 0] ne n2 by (simp add: hd_conv_nth)
  have l: "last ys = T"
    using nth [of "n - 1"] ne len n2 by (simp add: last_conv_nth)
  have d: "ys ! (i + 1) - ys ! i = s" if "i < n - 1" for i
  proof (cases "i + 1 = n - 1")
    case True
    then have i: "real i = real n - 2" using n2 by linarith
    have "real n - 1 \<noteq> 0" using n2 by simp
    then have "T - (real n - 2) * (T / (real n - 1)) = T / (real n - 1)"
      by (simp add: field_simps)
    moreover have "ys ! (i + 1) = T" using nth [of "i + 1"] True that by simp
    moreover have "ys ! i = real i * s" using nth [of i] True that by simp
    ultimately show ?thesis using i s by simp
  next
    case False
    have "ys ! (i + 1) = real (i + 1) * s" using nth [of "i + 1"] False that by simp
    moreover have "ys ! i = real i * s" using nth [of i] that by simp
    ultimately show ?thesis by (simp add: algebra_simps)
  qed
  have "evenly_spaced T N ys"
    unfolding evenly_spaced_def list_all_iff
    using len ne h l d Nn s_def by auto
  then show ?thesis by (simp add: ys_def s_def n_def arange_def)
qed

lemma tslots_derived:
  assumes "T \<noteq> 0" and "2 \<le> N"
  shows "tslots (TimeInterval_init None (Some T) (Some N)) =
           (case linspace 0 T N of
              Inl e \<Rightarrow> Inl e
            | Inr ts \<Rightarrow> Inr (Some ts, TimeInterval_init (Some ts) (Some T) (Some N)))"
  using assms
  by (simp add: tslots_def n_tslots_def TimeInterval_init_def truthy_float_def split: sum.splits)

text \<open>
  Claim C5, as the code has it: for every total time \<open>T\<close> other than 0 and every slot count
  \<open>N\<close> of at least 2, reading \<open>tslots\<close> of \<open>TimeInterval(evo_time=T, n_tslots=N)\<close> returns
  (and caches) \<open>N\<close> evenly spaced instants from 0 to \<open>T\<close> inclusive.
\<close>

theorem tslots_evenly_spaced:
  assumes "T \<noteq> 0" and "2 \<le> N"
  shows "\<exists>ts. tslots (TimeInterval_init None (Some T) (Some N)) =
                 Inr (Some ts, TimeInterval_init (Some ts) (Some T) (Some N)) \<and>
              evenly_spaced T N ts"
  using assms tslots_derived [OF assms] linspace_grid [OF assms(2), of T]
    evenly_spaced_grid [OF assms(2), of T]
  by simp

theorem tslots_evenly_spaced_witness:
  "(10::real) \<noteq> 0 \<and> (3::int) \<ge> 2 \<and>
   tslots (TimeInterval_init None (Some 10) (Some 3)) =
     Inr (Some [0, 5, 10], TimeInterval_init (Some [0, 5, 10]) (Some 10) (Some 3)) \<and>
   evenly_spaced 10 3 [0, 5, 10]"
proof -
  have ts: "linspace 0 10 3 = Inr [0, 5, 10]"
    by (simp add: linspace_def arange_def Let_def upt_conv_Cons)
  have "tslots (TimeInterval_init None (Some 10) (Some 3)) =
     Inr (Some [0, 5, 10], TimeInterval_init (Some [0, 5, 10]) (Some 10) (Some 3))"
    by (simp add: tslots_def n_tslots_def TimeInterval_init_def truthy_float_def ts)
  then show ?thesis
    using tslots_evenly_spaced [of 10 3] by auto
qed

text \<open>
  Claim C5 as stated fails for a single slot: \<open>TimeInterval(evo_time=5, n_tslots=1).tslots\<close>
  is the one instant 0, which does not reach the total time 5.
\<close>

theorem tslots_single_slot_counterexample:
  "tslots (TimeInterval_init None (Some 5) (Some 1)) =
     Inr (Some [0], TimeInterval_init (Some [0]) (Some 5) (Some 1)) \<and>
   \<not> evenly_spaced 5 1 [0]"
  by (simp add: tslots_def n_tslots_def TimeInterval_init_def truthy_float_def
      linspace_def arange_def Let_def evenly_spaced_def)

text \<open>An explicit sequence alone: \<open>evo_time\<close> is its last element; and when the caller
  passes \<open>n_tslots=None\<close>, \<open>n_tslots\<close> is derived as its length.\<close>

lemma evo_time_explicit_sequence:
  assumes "ts \<noteq> []"
  shows "evo_time (TimeInterval_init (Some ts) None n) =
           Inr (last ts, TimeInterval_init (Some ts) (Some (last ts)) n)"
  using assms
  by (simp add: evo_time_def tslots_def last_item_def TimeInterval_init_def)

lemma n_tslots_explicit_none:
  assumes "ts \<noteq> []"
  shows "n_tslots (TimeInterval_init (Some ts) None None) =
           Inr (int (length ts), TimeInterval_init (Some ts) None (Some (int (length ts))))"
  using assms
  by (simp add: n_tslots_def truthy_list_def TimeInterval_init_def Let_def)

text \<open>
  Claim C6 (an explicit sequence with no other input gives \<open>n_tslots\<close> equal to its length)
  at \<open>TimeInterval(tslots=[0, 1, 2])\<close>: the keyword default \<open>n_tslots=100\<close> is stored, the
  derivation from the sequence is never reached, and \<open>n_tslots\<close> is 100 while the length
  is 3.
\<close>

theorem n_tslots_explicit_sequence_default:
  "n_tslots (TimeInterval_init (Some [0, 1, 2]) None n_tslots_default) =
     Inr (100, TimeInterval_init (Some [0, 1, 2]) None n_tslots_default) \<and>
   int (length [0, 1, 2 :: real]) = 3"
  by (simp add: n_tslots_def n_tslots_default_def TimeInterval_init_def)

text \<open>
  Claim C9: constructed with both an explicit sequence and an evolution time, \<open>tslots\<close>
  returns the sequence unchanged and \<open>evo_time\<close> returns the supplied value, with no
  error and whatever the last element of the sequence is.
\<close>

theorem tslots_and_evo_time_both_given:
  "tslots (TimeInterval_init (Some ts) (Some T) n) =
     Inr (Some ts, TimeInterval_init (Some ts) (Some T) n) \<and>
   evo_time (TimeInterval_init (Some ts) (Some T) n) =
     Inr (T, TimeInterval_init (Some ts) (Some T) n)"
  by (simp add: tslots_def evo_time_def TimeInterval_init_def)

theorem tslots_and_evo_time_both_given_witness:
  "tslots (TimeInterval_init (Some [0, 1]) (Some 5) n_tslots_default) =
     Inr (Some [0, 1], TimeInterval_init (Some [0, 1]) (Some 5) n_tslots_default) \<and>
   evo_time (TimeInterval_init (Some [0, 1]) (Some 5) n_tslots_default) =
     Inr (5, TimeInterval_init (Some [0, 1]) (Some 5) n_tslots_default) \<and>
   (5::real) \<noteq> last [0, 1]"
  using tslots_and_evo_time_both_given [of "[0, 1]" 5 n_tslots_default] by simp

text \<open>
  Claim C10: constructed with \<open>evo_time=0.0\<close>, no explicit sequence and a slot count (the
  default one or any other), \<open>tslots\<close> returns None: no grid is derived, nothing is
  cached and no error is raised.
\<close>

theorem tslots_zero_evo_time:
  "tslots (TimeInterval_init None (Some 0) (Some n)) =
     Inr (None, TimeInterval_init None (Some 0) (Some n))"
  by (simp add: tslots_def n_tslots_def TimeInterval_init_def truthy_float_def)

theorem tslots_zero_evo_time_witness:
  "tslots (TimeInterval_init None (Some 0) n_tslots_default) =
     Inr (None, TimeInterval_init None (Some 0) n_tslots_default)"
  using tslots_zero_evo_time [of 100] by (simp add: n_tslots_default_def)

section \<open>The custom magnitude\<close>

text \<open>
  Claim C2: for every complex \<open>x\<close> and tangent \<open>t\<close>, \<open>abs\<close> returns \<open>|x|\<close>, and its
  derivative rule returns the value \<open>|x|\<close> with the tangent 0 when \<open>|x| = 0\<close> and
  \<open>Re(conj(x) * t) / |x|\<close> otherwise. The tangent is always a finite value; at \<open>x = 0\<close> it
  is 0, although the alternative that \<open>jnp.where\<close> discards there is a division by zero.
\<close>

theorem abs_jvp_rule:
  "abs_custom x = cmod x \<and>
   abs_jvp x t = (cmod x, Finite (if cmod x = 0 then 0 else Re (cnj x * t) / cmod x)) \<and>
   abs_jvp 0 t = (0, Finite 0)"
  by (simp add: abs_jvp_def abs_custom_def jnp_where_def jnp_divide_def Let_def)

theorem abs_jvp_rule_witness:
  "abs_jvp 0 1 = (0, Finite 0) \<and> abs_jvp 2 3 = (2, Finite 3) \<and> abs_custom 2 = 2"
  using abs_jvp_rule [of 0 1] abs_jvp_rule [of 2 3] by simp

section \<open>The generator builder\<close>

lemma wrapped_terms_length:
  "length (wrapped_terms idx cs ps) = min (length cs) (length ps)"
  by (induction idx cs ps rule: wrapped_terms.induct) auto

lemma prepare_loop_wrapped:
  assumes "list_all has_guess (take (length cs) ps)"
  shows "\<exists>H'. prepare_loop gp cs ps H idx = Inr H' \<and>
               elements H' = elements H @ wrapped_terms idx cs ps"
  using assms
proof (induction idx cs ps arbitrary: H rule: wrapped_terms.induct)
  case (1 idx hc ctrl cs p ps)
  from "1.prems" have hp: "has_guess p" and rest: "list_all has_guess (take (length cs) ps)"
    by simp_all
  from hp obtain g where g: "guess p = Some g"
    by (auto simp: has_guess_def)
  have gl: "guess_len p = length g" by (simp add: guess_len_def g)
  from "1.IH" [OF rest, of "qevo_add H (QobjEvo_pair hc (helper ctrl idx (idx + length g)) gp)"]
  show ?case
    by (simp add: g gl Let_def qevo_add_def QobjEvo_pair_def)
qed simp_all

lemma offset_Suc:
  assumes "k < length ps"
  shows "offset ps (Suc k) = offset ps k + guess_len (ps ! k)"
  using assms by (simp add: offset_def take_Suc_conv_app_nth)

lemma offset_mono:
  assumes "j \<le> k"
  shows "offset ps j \<le> offset ps k"
proof -
  obtain d where "k = j + d" using assms le_Suc_ex by blast
  then show ?thesis
    by (simp add: offset_def take_add)
qed

lemma offset_Cons: "offset (p # ps) (Suc k) = guess_len p + offset ps k"
  by (simp add: offset_def)

lemma wrapped_terms_nth:
  assumes "k < length cs" and "k < length ps"
  shows "wrapped_terms idx cs ps ! k =
           EvoElement (fst (cs ! k))
             (helper (snd (cs ! k)) (idx + offset ps k) (idx + offset ps k + guess_len (ps ! k)))"
  using assms
proof (induction idx cs ps arbitrary: k rule: wrapped_terms.induct)
  case (1 idx hc ctrl cs p ps)
  show ?case
  proof (cases k)
    case 0
    then show ?thesis by (simp add: offset_def)
  next
    case (Suc m)
    with "1.prems" have "m < length cs" "m < length ps" by auto
    from "1.IH" [OF this] show ?thesis
      by (simp add: Suc offset_Cons add.assoc)
  qed
qed auto

lemma py_slice_agree:
  assumes "agree_outside lo hi p q" and "hi' \<le> lo \<or> hi \<le> lo'"
  shows "py_slice p lo' hi' = py_slice q lo' hi'"
proof (rule nth_equalityI)
  have len: "length p = length q" using assms(1) by (simp add: agree_outside_def)
  then show "length (py_slice p lo' hi') = length (py_slice q lo' hi')"
    by (simp add: py_slice_def)
  fix i assume "i < length (py_slice p lo' hi')"
  then have i: "lo' + i < hi'" "lo' + i < length p"
    by (auto simp: py_slice_def)
  have "lo' + i \<in> set [0 ..< length p]" using i by simp
  with assms(1) have "lo \<le> lo' + i \<and> lo' + i < hi \<or> p ! (lo' + i) = q ! (lo' + i)"
    unfolding agree_outside_def list_all_iff by blast
  with assms(2) i have "p ! (lo' + i) = q ! (lo' + i)" by auto
  then show "py_slice p lo' hi' ! i = py_slice q lo' hi' ! i"
    using i len by (simp add: py_slice_def)
qed

lemma list_all_take: "list_all P xs \<Longrightarrow> list_all P (take n xs)"
  by (metis append_take_drop_id list_all_append)

text \<open>
  Claim C4: for control terms and a control-parameter specification that match (as many
  entries as terms, every entry with a guess), the builder succeeds, the generator is the
  drift followed by one term per control in order, and the \<open>k\<close>-th control's coefficient
  function is called with exactly \<open>params[offset\<^sub>k : offset\<^sub>k + M\<^sub>k]\<close>. Two parameter
  vectors that differ only inside the slice of control \<open>k\<close> give every other control
  term the same value.
\<close>

theorem prepare_generator_routing:
  assumes "length controls = length cps"
    and "list_all has_guess (map snd cps)"
    and "k < length controls"
  shows "\<exists>H. prepare_generator drift controls cps gp = Inr H \<and>
           length (elements H) = Suc (length controls) \<and>
           elements H ! Suc k =
             EvoElement (fst (controls ! k))
               (helper (snd (controls ! k)) (offset (map snd cps) k)
                  (offset (map snd cps) k + guess_len (map snd cps ! k))) \<and>
           (\<forall>t p. element_at (elements H ! Suc k) t p =
              mat_scale
                (snd (controls ! k) t
                   (py_slice p (offset (map snd cps) k)
                      (offset (map snd cps) k + guess_len (map snd cps ! k))))
                (data (fst (controls ! k)))) \<and>
           (\<forall>j t p q. j < length controls \<and> j \<noteq> k \<and>
              agree_outside (offset (map snd cps) k)
                (offset (map snd cps) k + guess_len (map snd cps ! k)) p q \<longrightarrow>
              element_at (elements H ! Suc j) t p = element_at (elements H ! Suc j) t q)"
proof -
  let ?ps = "map snd cps"
  have all: "list_all has_guess (take (length controls) ?ps)"
    using assms(1,2) by simp
  from prepare_loop_wrapped [OF all, of gp "QobjEvo_const drift" 0]
  obtain H where H: "prepare_generator drift controls cps gp = Inr H"
    and el: "elements H = ConstElement drift # wrapped_terms 0 controls ?ps"
    by (auto simp: prepare_generator_def QobjEvo_const_def)
  have len: "length (elements H) = Suc (length controls)"
    using assms(1) by (simp add: el wrapped_terms_length)
  have nth: "elements H ! Suc j =
      EvoElement (fst (controls ! j))
        (helper (snd (controls ! j)) (offset ?ps j) (offset ?ps j + guess_len (?ps ! j)))"
    if "j < length controls" for j
    using that assms(1) wrapped_terms_nth [of j controls ?ps 0] by (simp add: el)
  have val: "element_at (elements H ! Suc k) t p =
      mat_scale (snd (controls ! k) t
          (py_slice p (offset ?ps k) (offset ?ps k + guess_len (?ps ! k))))
        (data (fst (controls ! k)))" for t p
    using nth [OF assms(3)] by (simp add: helper_def)
  have indep: "element_at (elements H ! Suc j) t p = element_at (elements H ! Suc j) t q"
    if j: "j < length controls" "j \<noteq> k"
      and ag: "agree_outside (offset ?ps k) (offset ?ps k + guess_len (?ps ! k)) p q"
    for j t p q
  proof -
    have lj: "j < length ?ps" and lk: "k < length ?ps" using j assms by auto
    have "offset ?ps j + guess_len (?ps ! j) \<le> offset ?ps k \<or>
          offset ?ps k + guess_len (?ps ! k) \<le> offset ?ps j"
    proof (cases "j < k")
      case True
      then have "offset ?ps (Suc j) \<le> offset ?ps k" by (intro offset_mono) simp
      then show ?thesis using offset_Suc [OF lj] by simp
    next
      case False
      with j have "Suc k \<le> j" by simp
      then have "offset ?ps (Suc k) \<le> offset ?ps j" by (rule offset_mono)
      then show ?thesis using offset_Suc [OF lk] by simp
    qed
    from py_slice_agree [OF ag this] show ?thesis
      using nth [OF j(1)] by (simp add: helper_def)
  qed
  show ?thesis
    using H len nth [OF assms(3)] val indep by blast
qed

theorem prepare_generator_routing_witness:
  "\<exists>H. prepare_generator sigmaz [(sigmax, lin_coeff), (sigmay, lin_coeff)] pq_options
          [1, 1, 0, 1, 1, 0] = Inr H \<and>
       length (elements H) = 3 \<and>
       elements H ! 2 = EvoElement sigmay (helper lin_coeff 3 6) \<and>
       element_at (elements H ! 2) 1 [1, 2, 3, 4, 5, 6] = mat_scale 15 (data sigmay) \<and>
       element_at (elements H ! 1) 1 [1, 2, 3, 4, 5, 6] =
         element_at (elements H ! 1) 1 [1, 2, 3, 7, 8, 9]"
proof -
  have ag: "agree_outside 3 6 [1, 2, 3, 4, 5, 6] [1, 2, 3, 7, 8, 9]"
    by (simp add: agree_outside_def upt_conv_Cons)
  have off: "offset (map snd pq_options) 1 = 3" "guess_len (map snd pq_options ! 1) = 3"
    by (simp_all add: offset_def guess_len_def pq_options_def)
  have hyp: "length [(sigmax, lin_coeff), (sigmay, lin_coeff)] = length pq_options"
    "list_all has_guess (map snd pq_options)"
    "1 < length [(sigmax, lin_coeff), (sigmay, lin_coeff)]"
    by (simp_all add: pq_options_def has_guess_def)
  from prepare_generator_routing [OF hyp, of sigmaz "[1, 1, 0, 1, 1, 0]"]
  obtain H where H: "prepare_generator sigmaz [(sigmax, lin_coeff), (sigmay, lin_coeff)] pq_options
          [1, 1, 0, 1, 1, 0] = Inr H"
    and len: "length (elements H) = 3"
    and el: "elements H ! 2 = EvoElement sigmay (helper lin_coeff 3 6)"
    and ind: "\<And>j t p q. j < 2 \<and> j \<noteq> 1 \<and> agree_outside 3 6 p q \<longrightarrow>
        element_at (elements H ! Suc j) t p = element_at (elements H ! Suc j) t q"
    unfolding off by (auto simp: numeral_2_eq_2)
  have "element_at (elements H ! 2) 1 [1, 2, 3, 4, 5, 6] = mat_scale 15 (data sigmay)"
    by (simp add: el helper_def py_slice_def lin_coeff_def)
  moreover have "element_at (elements H ! 1) 1 [1, 2, 3, 4, 5, 6] =
         element_at (elements H ! 1) 1 [1, 2, 3, 7, 8, 9]"
    using ind [of 0 "[1, 2, 3, 4, 5, 6]" "[1, 2, 3, 7, 8, 9]" 1] ag by simp
  ultimately show ?thesis using H len el by blast
qed

section \<open>The infidelity\<close>

text \<open>
  Claim C3: whenever the evolution engine produces a final state \<open>X\<close>, and the fidelity
  kind is one of TRACEDIFF, PSU and SU, \<open>_infid\<close> returns the value the spec gives for that
  kind, computed from \<open>X\<close>, the target and the stored normalization factor.
\<close>

theorem infid_by_kind:
  assumes "final_state run self params = Inr X"
    and "fid_type self = fidelity_kind_name k"
  shows "infid run self params =
           Inr (infid_spec k (norm_fac self) (data (target self)) (data X))"
proof (cases k)
  case TRACEDIFF
  then show ?thesis using assms
    by (simp add: infid_def infid_spec_def fidelity_kind_name_def Let_def qobj_sub_def
        qobj_mul_def mult.assoc)
next
  case PSU
  then show ?thesis using assms
    by (simp add: infid_def infid_spec_def fidelity_kind_name_def Let_def overlap_def)
next
  case SU
  then show ?thesis using assms
    by (simp add: infid_def infid_spec_def fidelity_kind_name_def Let_def overlap_def)
qed

lemma adjoint_ket: "adjoint [[a], [b]] = [[cnj a, cnj b]]"
  by (simp add: adjoint_def)

lemma mat_mul_bra_ket: "mat_mul [[a, b]] [[c], [d]] = [[a * c + b * d]]"
  by (simp add: mat_mul_def)

lemma trace_1: "trace [[a]] = a"
  by (simp add: trace_def)

theorem infid_by_kind_witness:
  "infid (fixed_run \<lparr>data = [[0], [\<i>]], issuper = False\<rparr>) (sample_jopt ''PSU'') [1, 1, 0] = Inr 0 \<and>
   infid (fixed_run \<lparr>data = [[0], [\<i>]], issuper = False\<rparr>) (sample_jopt ''SU'') [1, 1, 0] = Inr 1 \<and>
   infid (fixed_run \<lparr>data = [[0], [\<i>]], issuper = False\<rparr>) (sample_jopt ''TRACEDIFF'') [1, 1, 0] = Inr 1"
proof -
  let ?X = "\<lparr>data = [[0], [\<i>]], issuper = False\<rparr>"
  have fs: "final_state (fixed_run ?X) (sample_jopt s) [1, 1, 0] = Inr ?X" for s
    by (simp add: final_state_def end_time_def fixed_run_def sample_jopt_def)
  have k: "fid_type (sample_jopt ''PSU'') = fidelity_kind_name PSU"
    "fid_type (sample_jopt ''SU'') = fidelity_kind_name SU"
    "fid_type (sample_jopt ''TRACEDIFF'') = fidelity_kind_name TRACEDIFF"
    by (simp_all add: sample_jopt_def fidelity_kind_name_def)
  have d: "mat_sub [[0], [\<i>]] [[0], [1]] = [[0], [\<i> - 1]]"
    by (simp add: mat_sub_def)
  have n: "(\<i> - 1) * cnj (\<i> - 1) = 2"
    by (simp add: complex_eq_iff)
  have v: "infid_spec PSU 1 [[0], [1]] [[0], [\<i>]] = 0"
    "infid_spec SU 1 [[0], [1]] [[0], [\<i>]] = 1"
    "infid_spec TRACEDIFF 1 [[0], [1]] [[0], [\<i>]] = 1"
    using n by (simp_all add: infid_spec_def abs_custom_def d adjoint_ket mat_mul_bra_ket trace_1
        mult.commute)
  show ?thesis
    using infid_by_kind [OF fs k(1)] infid_by_kind [OF fs k(2)] infid_by_kind [OF fs k(3)] v
    by (simp add: sample_jopt_def basis1_def)
qed

text \<open>The normalization factor is fixed by the constructor: one over the norm of the
  target.\<close>

lemma JOPT_init_norm_fac:
  assumes "JOPT_init qnorm obj ti topts cps akw gp kw = Inr j"
  shows "norm_fac j = 1 / qnorm (obj_target obj) \<and> target j = obj_target obj \<and>
         qnorm (obj_target obj) \<noteq> 0"
  using assms
  by (auto simp: JOPT_init_def Let_def split: sum.splits prod.splits if_splits)

text \<open>With any other fidelity-kind string, no branch of \<open>_infid\<close> assigns the result.\<close>

lemma infid_unknown_kind:
  assumes "final_state run self params = Inr X"
    and "fid_type self \<noteq> ''TRACEDIFF''" and "fid_type self \<noteq> ''PSU''" and "fid_type self \<noteq> ''SU''"
  shows "infid run self params = Inl UnboundLocalError"
  using assms by (simp add: infid_def Let_def)

section \<open>Construction\<close>

lemma evo_time_given:
  "evo_time (TimeInterval_init ts (Some T) n) = Inr (T, TimeInterval_init ts (Some T) n)"
  by (simp add: evo_time_def TimeInterval_init_def)

text \<open>
  Claim C7, as the code has it: the constructor does not check the fidelity-kind string.
  For every string \<open>s\<close>, valid or not, construction with \<open>fid_type = s\<close> raises exactly
  when construction with the same arguments and any other \<open>fid_type\<close> does, and otherwise
  returns the same object with \<open>s\<close> stored as its \<open>fid_type\<close>.
\<close>

theorem JOPT_init_fid_type_unchecked:
  "JOPT_init qnorm obj ti topts cps (akw(''fid_type'' \<mapsto> s)) gp kw =
     (case JOPT_init qnorm obj ti topts cps akw gp kw of
        Inl e \<Rightarrow> Inl e
      | Inr j \<Rightarrow> Inr (j\<lparr>fid_type := s\<rparr>))"
  by (simp add: JOPT_init_def dict_get_def Let_def split: sum.splits prod.splits)

theorem JOPT_init_fid_type_unchecked_witness:
  "JOPT_init unit_norm state2state (TimeInterval_init None (Some 10) n_tslots_default) []
     pq_options [''fid_type'' \<mapsto> ''FOO''] [1, 1, 0, 1, 1, 0] no_kwargs =
   map_sum id (\<lambda>j. j\<lparr>fid_type := ''FOO''\<rparr>)
     (JOPT_init unit_norm state2state (TimeInterval_init None (Some 10) n_tslots_default) []
        pq_options Map.empty [1, 1, 0, 1, 1, 0] no_kwargs) \<and>
   \<not> isl (JOPT_init unit_norm state2state (TimeInterval_init None (Some 10) n_tslots_default) []
        pq_options Map.empty [1, 1, 0, 1, 1, 0] no_kwargs)"
proof -
  have "\<not> isl (JOPT_init unit_norm state2state (TimeInterval_init None (Some 10) n_tslots_default) []
        pq_options Map.empty [1, 1, 0, 1, 1, 0] no_kwargs)"
    by (simp add: JOPT_init_def evo_time_given prepare_generator_def state2state_def
      pq_options_def Let_def unit_norm_def)
  then show ?thesis
    using JOPT_init_fid_type_unchecked [of unit_norm state2state
        "TimeInterval_init None (Some 10) n_tslots_default" "[]" pq_options "Map.empty" "''FOO''"
        "[1, 1, 0, 1, 1, 0]" no_kwargs]
    by (auto split: sum.splits)
qed

text \<open>
  Claim C7 as stated fails: constructing the test's problem with \<open>fid_type = "FOO"\<close>
  raises nothing and returns an object whose \<open>fid_type\<close> is \<open>"FOO"\<close>.
\<close>

theorem JOPT_init_unknown_fid_type_counterexample:
  "\<not> isl (JOPT_init unit_norm state2state (TimeInterval_init None (Some 10) n_tslots_default) []
            pq_options [''fid_type'' \<mapsto> ''FOO''] [1, 1, 0, 1, 1, 0] no_kwargs) \<and>
   map_sum id fid_type
     (JOPT_init unit_norm state2state (TimeInterval_init None (Some 10) n_tslots_default) []
        pq_options [''fid_type'' \<mapsto> ''FOO''] [1, 1, 0, 1, 1, 0] no_kwargs) = Inr ''FOO'' \<and>
   ''FOO'' \<noteq> ''TRACEDIFF'' \<and> ''FOO'' \<noteq> ''PSU'' \<and> ''FOO'' \<noteq> ''SU''"
  by (simp add: JOPT_init_def evo_time_given prepare_generator_def state2state_def
      pq_options_def Let_def unit_norm_def dict_get_def)

text \<open>
  Claim C8, as the code has it: the constructor checks neither the number of
  control-parameter entries against the number of control terms nor the bounds. When
  every entry has a guess, the evolution time resolves and the norm of the target is not
  zero, construction succeeds whatever the two counts are; the generator holds the drift
  and the control terms paired with entries in order as far as both lists go, so the
  surplus of the longer list is ignored.
\<close>

theorem JOPT_init_pairs_by_zip:
  assumes "list_all has_guess (map snd cps)"
    and "evo_time ti = Inr (T, ti')"
    and "qnorm (obj_target obj) \<noteq> 0"
  shows "\<exists>j. JOPT_init qnorm obj ti topts cps akw gp kw = Inr j \<and>
           elements (H_gen j) =
             ConstElement (obj_Hd obj) # wrapped_terms 0 (obj_Hc_lst obj) (map snd cps) \<and>
           length (elements (H_gen j)) = Suc (min (length (obj_Hc_lst obj)) (length cps))"
proof -
  have all: "list_all has_guess (take (length (obj_Hc_lst obj)) (map snd cps))"
    using assms(1) by (rule list_all_take)
  from prepare_loop_wrapped [OF all, of gp "QobjEvo_const (obj_Hd obj)" 0]
  obtain H where H: "prepare_generator (obj_Hd obj) (obj_Hc_lst obj) cps gp = Inr H"
    and el: "elements H = ConstElement (obj_Hd obj) # wrapped_terms 0 (obj_Hc_lst obj) (map snd cps)"
    by (auto simp: prepare_generator_def QobjEvo_const_def)
  show ?thesis
    using assms(2,3) by (simp add: JOPT_init_def H el Let_def wrapped_terms_length)
qed

theorem JOPT_init_pairs_by_zip_witness:
  "\<exists>j. JOPT_init unit_norm state2state (TimeInterval_init None (Some 10) n_tslots_default) []
          one_option Map.empty [1, 1, 0] no_kwargs = Inr j \<and>
       elements (H_gen j) = [ConstElement sigmaz, EvoElement sigmax (helper lin_coeff 0 3)] \<and>
       length (elements (H_gen j)) = 2"
proof -
  have h: "list_all has_guess (map snd one_option)" "unit_norm (obj_target state2state) \<noteq> 0"
    by (simp_all add: one_option_def has_guess_def unit_norm_def)
  have e: "evo_time (TimeInterval_init None (Some 10) n_tslots_default) =
      Inr (10, TimeInterval_init None (Some 10) n_tslots_default)"
    by (rule evo_time_given)
  from JOPT_init_pairs_by_zip [of one_option _ 10 _ unit_norm state2state "[]"
      "Map.empty" "[1, 1, 0]" no_kwargs, OF h(1) e h(2)]
  show ?thesis
    by (simp add: state2state_def one_option_def guess_len_def numeral_3_eq_3 numeral_2_eq_2)
qed

text \<open>
  Claim C8 as stated fails: with two control terms and a single entry whose bounds
  have another length than its guess, construction raises nothing, and the generator
  holds the drift and the first control term only.
\<close>

theorem JOPT_init_mismatch_counterexample:
  "length (obj_Hc_lst state2state) = 2 \<and> length one_option = 1 \<and>
   \<not> isl (JOPT_init unit_norm state2state (TimeInterval_init None (Some 10) n_tslots_default) []
            one_option Map.empty [1, 1, 0] no_kwargs) \<and>
   map_sum id (\<lambda>j. elements (H_gen j))
     (JOPT_init unit_norm state2state (TimeInterval_init None (Some 10) n_tslots_default) []
        one_option Map.empty [1, 1, 0] no_kwargs) =
     Inr [ConstElement sigmaz, EvoElement sigmax (helper lin_coeff 0 3)]"
  by (simp add: JOPT_init_def evo_time_given prepare_generator_def state2state_def
      one_option_def Let_def unit_norm_def QobjEvo_const_def QobjEvo_pair_def qevo_add_def
      numeral_3_eq_3)

end
